theory Spec2Isabelle
  imports Complex_Main
begin

section \<open>Values of the Python program\<close>

text \<open>
  The program of \<^verbatim>\<open>src/main.py\<close> works on what \<^verbatim>\<open>response.json()\<close> returns: Python values
  decoded from JSON. A dict is an association list read with \<^const>\<open>map_of\<close> (a dict has
  no repeated key). A Python float is the real number that the double denotes; the
  values nan and inf are outside the model. The arithmetic on floats rounds: what the
  platform computes is a parameter of the functions that calculate (the record
  \<open>platform\<close> below).
\<close>

datatype json =
    JNull
  | JBool bool
  | JInt int
  | JFloat real
  | JStr string
  | JList "json list"
  | JObject "(string \<times> json) list"

type_synonym dict = "(string \<times> json) list"

datatype py_error = ValueError | TypeError | OverflowError | KeyError | AttributeError

text \<open>Truth value testing, as \<^verbatim>\<open>if x\<close>, \<^verbatim>\<open>x and y\<close> and \<^verbatim>\<open>not x\<close> do it.\<close>

fun truthy :: "json \<Rightarrow> bool" where
  "truthy JNull = False"
| "truthy (JBool b) = b"
| "truthy (JInt n) = (n \<noteq> 0)"
| "truthy (JFloat x) = (x \<noteq> 0)"
| "truthy (JStr s) = (s \<noteq> [])"
| "truthy (JList xs) = (xs \<noteq> [])"
| "truthy (JObject kvs) = (kvs \<noteq> [])"

text \<open>
  \<^verbatim>\<open>float(x)\<close>. Which strings spell a number is decided by the Python runtime, not by
  the program: the reader of numeric literals is a parameter \<open>sf\<close>, \<open>None\<close> where
  \<^verbatim>\<open>float\<close> raises ValueError. The empty string is never a number. An int that rounds
  to a double is converted (the rounding of an int beyond 53 bits is left out), an int
  beyond the doubles raises OverflowError: the largest double is \<open>2 ^ 1024 - 2 ^ 971\<close>,
  and an int from \<open>2 ^ 1024 - 2 ^ 970\<close> on would round to \<open>2 ^ 1024\<close>.
\<close>

type_synonym reader = "string \<Rightarrow> real option"

definition float_overflow :: "int \<Rightarrow> bool" where
  "float_overflow n = (2 ^ 1024 - 2 ^ 970 \<le> \<bar>n\<bar>)"

fun py_float :: "reader \<Rightarrow> json \<Rightarrow> py_error + real" where
  "py_float sf JNull = Inl TypeError"
| "py_float sf (JBool b) = Inr (if b then 1 else 0)"
| "py_float sf (JInt n) =
     (if float_overflow n then Inl OverflowError else Inr (real_of_int n))"
| "py_float sf (JFloat x) = Inr x"
| "py_float sf (JStr s) =
     (if s = [] then Inl ValueError
      else case sf s of None \<Rightarrow> Inl ValueError | Some x \<Rightarrow> Inr x)"
| "py_float sf (JList xs) = Inl TypeError"
| "py_float sf (JObject kvs) = Inl TypeError"

text \<open>\<^verbatim>\<open>d.get(key)\<close>, \<^verbatim>\<open>d.get(key, default)\<close> and \<^verbatim>\<open>d[key]\<close> on a dict.\<close>

definition dict_get :: "dict \<Rightarrow> string \<Rightarrow> json" where
  "dict_get d k = (case map_of d k of None \<Rightarrow> JNull | Some v \<Rightarrow> v)"

definition dict_get_default :: "dict \<Rightarrow> string \<Rightarrow> json \<Rightarrow> json" where
  "dict_get_default d k dflt = (case map_of d k of None \<Rightarrow> dflt | Some v \<Rightarrow> v)"

definition dict_index :: "dict \<Rightarrow> string \<Rightarrow> py_error + json" where
  "dict_index d k = (case map_of d k of None \<Rightarrow> Inl KeyError | Some v \<Rightarrow> Inr v)"

subsection \<open>A reader of plain decimal literals\<close>

text \<open>
  For concrete inputs: an optional sign, digits, at most one point, at least one digit
  (\<^verbatim>\<open>42\<close>, \<^verbatim>\<open>-5\<close>, \<^verbatim>\<open>25.0330\<close>). On these strings \<^verbatim>\<open>float\<close> returns the same number, and
  a string with no digit in it (\<^verbatim>\<open>N/A\<close>, \<^verbatim>\<open>abc\<close>) is refused by both.
\<close>

definition digit_of :: "char \<Rightarrow> nat option" where
  "digit_of c =
     (let n = (of_char c :: nat) in if 48 \<le> n \<and> n \<le> 57 then Some (n - 48) else None)"

fun digits_value :: "nat \<Rightarrow> string \<Rightarrow> nat option" where
  "digits_value acc [] = Some acc"
| "digits_value acc (c # cs) =
     (case digit_of c of None \<Rightarrow> None | Some d \<Rightarrow> digits_value (10 * acc + d) cs)"

definition unsigned_decimal :: "string \<Rightarrow> real option" where
  "unsigned_decimal s =
     (let ip = takeWhile (\<lambda>c. c \<noteq> CHR ''.'') s;
          fp = drop 1 (dropWhile (\<lambda>c. c \<noteq> CHR ''.'') s)
      in if ip = [] \<and> fp = [] then None
         else case digits_value 0 (ip @ fp) of
                None \<Rightarrow> None
              | Some n \<Rightarrow> Some (real n / 10 ^ length fp))"

definition decimal_reader :: reader where
  "decimal_reader s =
     (case s of
        [] \<Rightarrow> None
      | c # cs \<Rightarrow>
          if c = CHR ''-'' then map_option uminus (unsigned_decimal cs)
          else if c = CHR ''+'' then unsigned_decimal cs
          else unsigned_decimal s)"

section \<open>The severity classifier\<close>

text \<open>
  The labels are Chinese words; a \<^typ>\<open>string\<close> holds their UTF-8 bytes.
  \<open>label_good\<close> is U+826F U+597D, \<open>label_moderate\<close> U+666E U+901A,
  \<open>label_unhealthy\<close> U+4E0D U+5065 U+5EB7, \<open>label_hazardous\<close> U+5371 U+5BB3 and
  \<open>label_unknown\<close> U+672A U+77E5.
\<close>

definition label_good :: string where
  "label_good = [CHR 0xE8, CHR 0x89, CHR 0xAF, CHR 0xE5, CHR 0xA5, CHR 0xBD]"

definition label_moderate :: string where
  "label_moderate = [CHR 0xE6, CHR 0x99, CHR 0xAE, CHR 0xE9, CHR 0x80, CHR 0x9A]"

definition label_unhealthy :: string where
  "label_unhealthy =
     [CHR 0xE4, CHR 0xB8, CHR 0x8D, CHR 0xE5, CHR 0x81, CHR 0xA5, CHR 0xE5, CHR 0xBA, CHR 0xB7]"

definition label_hazardous :: string where
  "label_hazardous = [CHR 0xE5, CHR 0x8D, CHR 0xB1, CHR 0xE5, CHR 0xAE, CHR 0xB3]"

definition label_unknown :: string where
  "label_unknown = [CHR 0xE6, CHR 0x9C, CHR 0xAA, CHR 0xE7, CHR 0x9F, CHR 0xA5]"

type_synonym tier = "string \<times> string"

definition AQI_LEVELS :: "(int \<times> int \<times> string \<times> string) list" where
  "AQI_LEVELS =
     [(0, 50, label_good, ''#2ecc71''),
      (51, 100, label_moderate, ''#ffd700''),
      (101, 500, label_unhealthy, ''#ff4444'')]"

text \<open>The loop over the table: the first band that holds the value.\<close>

fun find_level :: "(int \<times> int \<times> string \<times> string) list \<Rightarrow> real \<Rightarrow> tier option" where
  "find_level [] aqi_val = None"
| "find_level ((min_val, max_val, level, color) # rest) aqi_val =
     (if real_of_int min_val \<le> aqi_val \<and> aqi_val \<le> real_of_int max_val
      then Some (level, color)
      else find_level rest aqi_val)"

text \<open>
  \<^verbatim>\<open>get_aqi_level\<close>: \<^verbatim>\<open>aqi_val = float(aqi) if aqi else 0\<close> under a handler of ValueError
  and TypeError, then the loop, then the catch-all tier. An OverflowError of \<^verbatim>\<open>float\<close>
  is not handled and leaves the method.
\<close>

definition get_aqi_level :: "reader \<Rightarrow> json \<Rightarrow> py_error + tier" where
  "get_aqi_level sf aqi =
     (case (if truthy aqi then py_float sf aqi else Inr 0) of
        Inl e \<Rightarrow>
          if e = ValueError \<or> e = TypeError then Inr (label_unknown, ''#95a5a6'')
          else Inl e
      | Inr aqi_val \<Rightarrow>
          (case find_level AQI_LEVELS aqi_val of
             Some t \<Rightarrow> Inr t
           | None \<Rightarrow> Inr (label_hazardous, ''#4b0082'')))"

section \<open>The great-circle distance\<close>

text \<open>
  What the platform computes on doubles. \<open>fl\<close> rounds the exact result of an
  arithmetic operation to a double; \<open>m_sin\<close>, \<open>m_cos\<close>, \<open>m_sqrt\<close> and \<open>m_asin\<close> are the
  results of the C library behind the \<^verbatim>\<open>math\<close> module, \<open>m_sq\<close> is \<^verbatim>\<open>x ** 2\<close>. None of
  them is exact, so they are parameters. \<open>notna_list\<close> is the truth value of what
  \<^verbatim>\<open>pd.notna\<close> returns for a list (an array, whose truth value numpy decides or refuses).
\<close>

record platform =
  fl :: "real \<Rightarrow> real"
  m_sin :: "real \<Rightarrow> real"
  m_cos :: "real \<Rightarrow> real"
  m_sqrt :: "real \<Rightarrow> real"
  m_asin :: "real \<Rightarrow> real"
  m_sq :: "real \<Rightarrow> real"
  notna_list :: "json list \<Rightarrow> py_error + bool"

text \<open>
  The functions of the \<^verbatim>\<open>math\<close> module that the program calls. \<^verbatim>\<open>math.radians\<close>
  multiplies by the double \<^verbatim>\<open>pi / 180\<close>. \<^verbatim>\<open>math.sqrt\<close> and \<^verbatim>\<open>math.asin\<close> raise ValueError
  outside their domain.
\<close>

definition radians :: "platform \<Rightarrow> real \<Rightarrow> real" where
  "radians pf x = fl pf (x * fl pf (fl pf pi / 180))"

definition math_sqrt :: "platform \<Rightarrow> real \<Rightarrow> py_error + real" where
  "math_sqrt pf x = (if x < 0 then Inl ValueError else Inr (m_sqrt pf x))"

definition math_asin :: "platform \<Rightarrow> real \<Rightarrow> py_error + real" where
  "math_asin pf x = (if x < - 1 \<or> 1 < x then Inl ValueError else Inr (m_asin pf x))"

text \<open>
  \<^verbatim>\<open>round(x, ndigits)\<close>: the double next to the nearest multiple of \<open>10 ^ - ndigits\<close>, a
  tie to the even one.
\<close>

definition round_half_even :: "real \<Rightarrow> int" where
  "round_half_even y =
     (let f = \<lfloor>y\<rfloor>; d = y - of_int f
      in if d < 1 / 2 then f else if 1 / 2 < d then f + 1
         else if even f then f else f + 1)"

definition py_round :: "platform \<Rightarrow> real \<Rightarrow> nat \<Rightarrow> real" where
  "py_round pf x ndigits =
     fl pf (of_int (round_half_even (x * 10 ^ ndigits)) / 10 ^ ndigits)"

definition calculate_distance ::
  "platform \<Rightarrow> real \<Rightarrow> real \<Rightarrow> real \<Rightarrow> real \<Rightarrow> py_error + real" where
  "calculate_distance pf lat1 lon1 lat2 lon2 =
     (let R = 6371;
          lat1_rad = radians pf lat1;
          lat2_rad = radians pf lat2;
          delta_lat = radians pf (fl pf (lat2 - lat1));
          delta_lon = radians pf (fl pf (lon2 - lon1));
          a = fl pf
                (m_sq pf (m_sin pf (fl pf (delta_lat / 2)))
                 + fl pf
                     (fl pf (m_cos pf lat1_rad * m_cos pf lat2_rad)
                      * m_sq pf (m_sin pf (fl pf (delta_lon / 2)))))
      in case math_sqrt pf a of
           Inl e \<Rightarrow> Inl e
         | Inr q \<Rightarrow>
             (case math_asin pf q of
                Inl e \<Rightarrow> Inl e
              | Inr s \<Rightarrow>
                  let c = fl pf (2 * s);
                      distance = fl pf (R * c)
                  in Inr (py_round pf distance 2)))"

text \<open>
  What the symmetry of the distance rests on: rounding to the nearest double, the sine
  and the square treat a number and its negative alike.
\<close>

definition sign_symmetric :: "platform \<Rightarrow> bool" where
  "sign_symmetric pf =
     ((\<forall>x. fl pf (- x) = - fl pf x) \<and> (\<forall>x. m_sin pf (- x) = - m_sin pf x)
      \<and> (\<forall>x. m_sq pf (- x) = m_sq pf x))"

text \<open>The platform whose arithmetic is exact, for the concrete runs below.\<close>

definition exact_platform :: platform where
  "exact_platform =
     \<lparr>fl = (\<lambda>x. x), m_sin = sin, m_cos = cos, m_sqrt = sqrt, m_asin = arcsin,
      m_sq = (\<lambda>x. x\<^sup>2),
      notna_list = (\<lambda>xs. case xs of
                                [] \<Rightarrow> Inr False
                              | [x] \<Rightarrow> Inr (x \<noteq> JNull)
                              | _ \<Rightarrow> Inl ValueError)\<rparr>"

section \<open>Fetching the records\<close>

text \<open>
  What the one GET request comes to: \<^verbatim>\<open>session.get\<close> raises a RequestException
  (connection error, timeout), or there is a response with a status code and a body.
  The body is what \<^verbatim>\<open>response.json()\<close> decodes, \<open>None\<close> where it raises its
  JSONDecodeError; that class of \<^verbatim>\<open>requests\<close> is a RequestException as well, so the first
  handler takes it.
\<close>

datatype http_outcome =
    RequestFailed
  | Response nat "json option"

text \<open>
  The lines the method prints. \<open>MsgUndecodable\<close> is the line of the second handler
  (\<^verbatim>\<open>json.JSONDecodeError\<close>), which no path of the model reaches.
\<close>

datatype message =
    MsgFetching
  | MsgFetched nat
  | MsgApiError json
  | MsgInvalidFormat
  | MsgRequestFailed
  | MsgUndecodable

text \<open>\<^verbatim>\<open>raise_for_status\<close> raises HTTPError, a RequestException, for a 4xx or 5xx status.\<close>

definition raise_for_status :: "nat \<Rightarrow> bool" where
  "raise_for_status status = (400 \<le> status \<and> status < 600)"

text \<open>
  \<^verbatim>\<open>len\<close>. A string is counted in characters: the bytes of its UTF-8 form but for the
  continuation bytes (\<open>0x80\<close> to \<open>0xBF\<close>).
\<close>

definition str_len :: "string \<Rightarrow> nat" where
  "str_len s = length (filter (\<lambda>c. \<not> (128 \<le> (of_char c :: nat) \<and> (of_char c :: nat) < 192)) s)"

fun py_len :: "json \<Rightarrow> py_error + nat" where
  "py_len (JStr s) = Inr (str_len s)"
| "py_len (JList xs) = Inr (length xs)"
| "py_len (JObject kvs) = Inr (length kvs)"
| "py_len v = Inl TypeError"

text \<open>U+672A U+77E5 U+932F U+8AA4, the default of \<^verbatim>\<open>data.get('message', ...)\<close>.\<close>

definition default_message :: string where
  "default_message =
     [CHR 0xE6, CHR 0x9C, CHR 0xAA, CHR 0xE7, CHR 0x9F, CHR 0xA5,
      CHR 0xE9, CHR 0x8C, CHR 0xAF, CHR 0xE8, CHR 0xAA, CHR 0xA4]"

text \<open>
  The end of the \<^verbatim>\<open>try\<close> block: the count of the records is printed, then they are
  returned. \<^verbatim>\<open>len\<close> raises TypeError on a value with no length, and neither handler
  takes a TypeError.
\<close>

definition report_count :: "json \<Rightarrow> message list \<times> (py_error + json option)" where
  "report_count records =
     (case py_len records of
        Inl e \<Rightarrow> ([MsgFetching], Inl e)
      | Inr n \<Rightarrow> ([MsgFetching, MsgFetched n], Inr (Some records)))"

definition fetch_aqi_data :: "http_outcome \<Rightarrow> message list \<times> (py_error + json option)" where
  "fetch_aqi_data h =
     (case h of
        RequestFailed \<Rightarrow> ([MsgFetching, MsgRequestFailed], Inr None)
      | Response status body \<Rightarrow>
          if raise_for_status status then ([MsgFetching, MsgRequestFailed], Inr None)
          else
            (case body of
               None \<Rightarrow> ([MsgFetching, MsgRequestFailed], Inr None)
             | Some (JList xs) \<Rightarrow> report_count (JList xs)
             | Some (JObject d) \<Rightarrow>
                 if truthy (dict_get d ''success'')
                 then report_count (dict_get_default d ''records'' (JList []))
                 else
                   ([MsgFetching,
                     MsgApiError (dict_get_default d ''message'' (JStr default_message))],
                    Inr None)
             | Some _ \<Rightarrow> ([MsgFetching, MsgInvalidFormat], Inr None)))"

section \<open>The map\<close>

text \<open>
  A marker keeps what \<^verbatim>\<open>folium.CircleMarker\<close> is given: the location, the colour, and
  the values the popup and the tooltip show. The map document is the fixed centre and
  zoom with the markers added to it; the legend is a constant of the program.
  \<^verbatim>\<open>folium\<close> is taken to accept every marker it is handed.
\<close>

record marker =
  location :: "real \<times> real"
  color :: string
  level :: string
  site_name :: json
  county :: json
  aqi :: json

record folium_map =
  center :: "real \<times> real"
  zoom_start :: nat
  markers :: "marker list"

text \<open>
  The filter of \<^verbatim>\<open>create_map\<close>: \<^verbatim>\<open>r.get('latitude') and r.get('longitude') and
  r.get('sitename')\<close>, tested for truth.
\<close>

definition is_valid_record :: "dict \<Rightarrow> bool" where
  "is_valid_record r =
     (truthy (dict_get r ''latitude'') \<and> truthy (dict_get r ''longitude'')
      \<and> truthy (dict_get r ''sitename''))"

text \<open>The list comprehension; \<^verbatim>\<open>r.get\<close> on a value that is no dict raises AttributeError.\<close>

fun valid_records :: "json list \<Rightarrow> py_error + dict list" where
  "valid_records [] = Inr []"
| "valid_records (JObject r # rest) =
     (case valid_records rest of
        Inl e \<Rightarrow> Inl e
      | Inr vs \<Rightarrow> Inr (if is_valid_record r then r # vs else vs))"
| "valid_records (v # rest) = Inl AttributeError"

text \<open>U+672A U+77E5 U+6E2C U+7AD9, the default of \<^verbatim>\<open>record.get('sitename', ...)\<close>.\<close>

definition default_site_name :: string where
  "default_site_name =
     [CHR 0xE6, CHR 0x9C, CHR 0xAA, CHR 0xE7, CHR 0x9F, CHR 0xA5,
      CHR 0xE6, CHR 0xB8, CHR 0xAC, CHR 0xE7, CHR 0xAB, CHR 0x99]"

text \<open>The body of the \<^verbatim>\<open>try\<close> block of the loop, for one record.\<close>

definition make_marker :: "reader \<Rightarrow> dict \<Rightarrow> py_error + marker" where
  "make_marker sf record =
     (case dict_index record ''latitude'' of
        Inl e \<Rightarrow> Inl e
      | Inr lat_v \<Rightarrow>
     (case py_float sf lat_v of
        Inl e \<Rightarrow> Inl e
      | Inr lat \<Rightarrow>
     (case dict_index record ''longitude'' of
        Inl e \<Rightarrow> Inl e
      | Inr lon_v \<Rightarrow>
     (case py_float sf lon_v of
        Inl e \<Rightarrow> Inl e
      | Inr lon \<Rightarrow>
          let name = dict_get_default record ''sitename'' (JStr default_site_name);
              cnty = dict_get_default record ''county'' (JStr []);
              aqi_v = dict_get_default record ''aqi'' (JStr ''N/A'')
          in (case get_aqi_level sf aqi_v of
                Inl e \<Rightarrow> Inl e
              | Inr (lvl, col) \<Rightarrow>
                  Inr \<lparr>location = (lat, lon), color = col, level = lvl,
                       site_name = name, county = cnty, aqi = aqi_v\<rparr>)))))"

text \<open>
  The loop over the valid records: a ValueError or TypeError of the body is caught and
  the record skipped, any other error leaves the method.
\<close>

fun add_markers :: "reader \<Rightarrow> dict list \<Rightarrow> marker list \<Rightarrow> py_error + marker list" where
  "add_markers sf [] m = Inr m"
| "add_markers sf (record # rest) m =
     (case make_marker sf record of
        Inr mk \<Rightarrow> add_markers sf rest (m @ [mk])
      | Inl e \<Rightarrow>
          if e = ValueError \<or> e = TypeError then add_markers sf rest m else Inl e)"

text \<open>
  \<^verbatim>\<open>create_map\<close>: \<open>Inr None\<close> is the return of \<^verbatim>\<open>None\<close> with no file written,
  \<open>Inr (Some m)\<close> the map saved and its path returned.
\<close>

definition create_map :: "reader \<Rightarrow> json list \<Rightarrow> py_error + folium_map option" where
  "create_map sf records =
     (case valid_records records of
        Inl e \<Rightarrow> Inl e
      | Inr vs \<Rightarrow>
          if vs = [] then Inr None
          else
            (case add_markers sf vs [] of
               Inl e \<Rightarrow> Inl e
             | Inr ms \<Rightarrow> Inr (Some \<lparr>center = (23.5, 121), zoom_start = 7, markers = ms\<rparr>)))"

text \<open>The markers of the map a call produced: none where no map was saved.\<close>

fun markers_of :: "py_error + folium_map option \<Rightarrow> marker list" where
  "markers_of (Inr (Some m)) = markers m"
| "markers_of r = []"

section \<open>The tabular report\<close>

text \<open>
  \<^verbatim>\<open>pd.DataFrame(records)\<close> on a list of dicts: one row per record, one column per key
  that some record has, a missing cell where a record lacks the key. The frame is kept
  as the list of its rows. A list with an element that is no dict gives no frame with a
  \<^verbatim>\<open>latitude\<close> column, and the empty list gives a frame that the assignment of the
  distance column refuses: either way pandas raises inside the \<^verbatim>\<open>try\<close> block before
  anything is saved.
\<close>

fun DataFrame :: "json list \<Rightarrow> dict list option" where
  "DataFrame [] = Some []"
| "DataFrame (JObject r # rest) = map_option ((#) r) (DataFrame rest)"
| "DataFrame (v # rest) = None"

definition has_column :: "dict list \<Rightarrow> string \<Rightarrow> bool" where
  "has_column df c = list_ex (\<lambda>r. map_of r c \<noteq> None) df"

text \<open>\<^verbatim>\<open>row[c]\<close>: KeyError without the column, \<open>None\<close> for a missing cell (NaN).\<close>

definition frame_cell :: "dict list \<Rightarrow> dict \<Rightarrow> string \<Rightarrow> py_error + json option" where
  "frame_cell df row c = (if has_column df c then Inr (map_of row c) else Inl KeyError)"

text \<open>
  The truth value of \<^verbatim>\<open>pd.notna(x)\<close>, as \<^verbatim>\<open>and\<close> and \<^verbatim>\<open>if\<close> take it: false for a
  missing cell and for \<^verbatim>\<open>None\<close>, true for any other scalar and for a dict; for a list
  it is the platform's.
\<close>

fun notna :: "platform \<Rightarrow> json option \<Rightarrow> py_error + bool" where
  "notna pf None = Inr False"
| "notna pf (Some JNull) = Inr False"
| "notna pf (Some (JList xs)) = notna_list pf xs"
| "notna pf (Some v) = Inr True"

text \<open>
  The function that \<^verbatim>\<open>df.apply(..., axis=1)\<close> calls on each row: the condition first
  (\<^verbatim>\<open>and\<close> does not look at the longitude when the latitude is not there), then the two
  conversions and the distance.
\<close>

definition row_distance ::
  "platform \<Rightarrow> reader \<Rightarrow> dict list \<Rightarrow> dict \<Rightarrow> py_error + real option" where
  "row_distance pf sf df row =
     (let taipei_station_lat = 25.0478;
          taipei_station_lon = 121.5170
      in case frame_cell df row ''latitude'' of
           Inl e \<Rightarrow> Inl e
         | Inr la \<Rightarrow>
      (case notna pf la of
           Inl e \<Rightarrow> Inl e
         | Inr False \<Rightarrow> Inr None
         | Inr True \<Rightarrow>
      (case frame_cell df row ''longitude'' of
           Inl e \<Rightarrow> Inl e
         | Inr lo \<Rightarrow>
      (case notna pf lo of
           Inl e \<Rightarrow> Inl e
         | Inr False \<Rightarrow> Inr None
         | Inr True \<Rightarrow>
             (case (la, lo) of
                (Some lat_v, Some lon_v) \<Rightarrow>
                  (case py_float sf lat_v of
                     Inl e \<Rightarrow> Inl e
                   | Inr lat \<Rightarrow>
                  (case py_float sf lon_v of
                     Inl e \<Rightarrow> Inl e
                   | Inr lon \<Rightarrow>
                  (case calculate_distance pf lat lon
                          taipei_station_lat taipei_station_lon of
                     Inl e \<Rightarrow> Inl e
                   | Inr d \<Rightarrow> Inr (Some d))))
              | _ \<Rightarrow> Inr None)))))"

text \<open>\<^verbatim>\<open>df.apply\<close> row by row: the first error leaves it.\<close>

fun df_apply :: "(dict \<Rightarrow> py_error + 'a) \<Rightarrow> dict list \<Rightarrow> py_error + 'a list" where
  "df_apply f [] = Inr []"
| "df_apply f (row # rest) =
     (case f row of
        Inl e \<Rightarrow> Inl e
      | Inr y \<Rightarrow> (case df_apply f rest of Inl e \<Rightarrow> Inl e | Inr ys \<Rightarrow> Inr (y # ys)))"

text \<open>The column that \<^verbatim>\<open>create_data_report\<close> adds to the frame.\<close>

definition distance_column ::
  "platform \<Rightarrow> reader \<Rightarrow> dict list \<Rightarrow> py_error + real option list" where
  "distance_column pf sf df = df_apply (row_distance pf sf df) df"

text \<open>
  The columns the report selects, but for the distance, which a row holds in a field of
  its own (the column was just assigned, so it is always there).
\<close>

definition columns :: "string list" where
  "columns =
     [''sitename'', ''county'', ''aqi'', ''pollutant'', ''status'', ''latitude'',
      ''longitude'', ''publishtime'']"

record report_row =
  cells :: "(string \<times> json option) list"
  distance :: "real option"

text \<open>
  \<^verbatim>\<open>sort_values\<close> on the distance column, ascending, \<^verbatim>\<open>na_position='last'\<close>: the rows
  with a distance in order, then the rows without one. pandas leaves the order of rows
  with equal distances open; here they keep the order they had.
\<close>

definition sort_values :: "report_row list \<Rightarrow> report_row list" where
  "sort_values rows =
     sort_key (\<lambda>r. the (distance r)) (filter (\<lambda>r. distance r \<noteq> None) rows)
     @ filter (\<lambda>r. distance r = None) rows"

text \<open>
  What a call of \<^verbatim>\<open>create_data_report\<close> leaves: the rows of the file written, if one
  was, and whether the handler of the method reported a failure. The last line of the
  \<^verbatim>\<open>try\<close> block reads \<^verbatim>\<open>df_output.iloc[0]['sitename']\<close> after the file is saved, a
  KeyError without that column.
\<close>

record report_result =
  saved :: "report_row list option"
  failed :: bool

definition create_data_report :: "platform \<Rightarrow> reader \<Rightarrow> json list \<Rightarrow> report_result" where
  "create_data_report pf sf records =
     (case DataFrame records of
        None \<Rightarrow> \<lparr>saved = None, failed = True\<rparr>
      | Some df \<Rightarrow>
          if df = [] then \<lparr>saved = None, failed = True\<rparr>
          else
            (case distance_column pf sf df of
               Inl e \<Rightarrow> \<lparr>saved = None, failed = True\<rparr>
             | Inr ds \<Rightarrow>
                 let available_columns = filter (has_column df) columns;
                     df_output =
                       map2 (\<lambda>row d.
                               \<lparr>cells = map (\<lambda>c. (c, map_of row c)) available_columns,
                                distance = d\<rparr>)
                         df ds;
                     df_sorted = sort_values df_output
                 in \<lparr>saved = Some df_sorted, failed = \<not> has_column df ''sitename''\<rparr>))"

section \<open>The run\<close>

text \<open>
  \<^verbatim>\<open>main\<close>, from the API key of the environment and the outcome of the request. A run
  ends without a key (\<open>NoApiKey\<close>: the key is asked for and \<^verbatim>\<open>main\<close> returns), without
  data (\<open>NoData\<close>: the branch of \<^verbatim>\<open>if not records\<close>, which prints that no data could
  be fetched and returns), by an error that nothing catches (\<open>Crashed\<close>), or after both
  renderers were called (\<open>Completed\<close>, with what \<^verbatim>\<open>create_map\<close> returned and what
  \<^verbatim>\<open>create_data_report\<close> left).
\<close>

datatype run =
    NoApiKey
  | NoData
  | Crashed py_error
  | Completed "folium_map option" report_result

text \<open>
  What \<^verbatim>\<open>for r in records\<close> goes through. A string gives its characters (here one
  string for each byte, strings either way), a dict its keys.
\<close>

fun py_iter :: "json \<Rightarrow> py_error + json list" where
  "py_iter (JList xs) = Inr xs"
| "py_iter (JStr s) = Inr (map (\<lambda>c. JStr [c]) s)"
| "py_iter (JObject d) = Inr (map (\<lambda>kv. JStr (fst kv)) d)"
| "py_iter v = Inl TypeError"

definition main :: "platform \<Rightarrow> reader \<Rightarrow> string option \<Rightarrow> http_outcome \<Rightarrow> run" where
  "main pf sf api_key h =
     (case api_key of
        None \<Rightarrow> NoApiKey
      | Some k \<Rightarrow>
          if k = [] then NoApiKey
          else
            (case snd (fetch_aqi_data h) of
               Inl e \<Rightarrow> Crashed e
             | Inr None \<Rightarrow> NoData
             | Inr (Some records) \<Rightarrow>
                 if \<not> truthy records then NoData
                 else
                   (case py_iter records of
                      Inl e \<Rightarrow> Crashed e
                    | Inr rs \<Rightarrow>
                        (case create_map sf rs of
                           Inl e \<Rightarrow> Crashed e
                         | Inr map_file \<Rightarrow> Completed map_file (create_data_report pf sf rs)))))"

text \<open>The two artifacts of a run.\<close>

fun map_artifact :: "run \<Rightarrow> folium_map option" where
  "map_artifact (Completed m r) = m"
| "map_artifact x = None"

fun report_artifact :: "run \<Rightarrow> report_row list option" where
  "report_artifact (Completed m r) = saved r"
| "report_artifact x = None"

section \<open>Example records\<close>

text \<open>
  Records as the API sends them (every field a string), for the concrete runs below: a
  station at the reference point of the report, one without a latitude, one whose
  longitude spells no number, one whose latitude is the number 0, and one whose
  longitude spells no number and whose latitude is an int beyond the doubles.
\<close>

definition taipei_station :: dict where
  "taipei_station =
     [(''sitename'', JStr ''Taipei Station''), (''aqi'', JStr ''42''),
      (''latitude'', JStr ''25.0478''), (''longitude'', JStr ''121.5170'')]"

definition station_without_latitude :: dict where
  "station_without_latitude =
     [(''sitename'', JStr ''B''), (''aqi'', JStr ''120''), (''longitude'', JStr ''120.3014'')]"

definition station_bad_longitude :: dict where
  "station_bad_longitude =
     [(''sitename'', JStr ''C''), (''aqi'', JStr ''120''),
      (''latitude'', JStr ''22.6273''), (''longitude'', JStr ''abc'')]"

definition station_zero_latitude :: dict where
  "station_zero_latitude =
     [(''sitename'', JStr ''D''), (''aqi'', JStr ''120''),
      (''latitude'', JInt 0), (''longitude'', JStr ''120.3014'')]"

definition station_huge_latitude :: dict where
  "station_huge_latitude =
     [(''sitename'', JStr ''G''), (''latitude'', JInt (10 ^ 400)), (''longitude'', JStr ''abc'')]"

definition taipei_marker :: marker where
  "taipei_marker =
     \<lparr>location = (25.0478, 121.5170), color = ''#2ecc71'', level = label_good,
      site_name = JStr ''Taipei Station'', county = JStr [], aqi = JStr ''42''\<rparr>"

definition success_envelope :: "json \<Rightarrow> http_outcome" where
  "success_envelope records =
     Response 200 (Some (JObject [(''success'', JBool True), (''records'', records)]))"

section \<open>Properties of the classifier\<close>

lemma labels_distinct:
  "distinct [label_good, label_moderate, label_unhealthy, label_hazardous, label_unknown]"
  by (simp add: label_good_def label_moderate_def label_unhealthy_def label_hazardous_def
      label_unknown_def)

lemma py_float_error:
  "py_float sf v = Inl e \<Longrightarrow>
   e = ValueError \<or> e = TypeError \<or> (e = OverflowError \<and> (\<exists>n. v = JInt n \<and> float_overflow n))"
  by (cases v) (auto split: if_splits option.splits)

lemma float_overflow_small: "\<bar>n\<bar> \<le> 1000 \<Longrightarrow> \<not> float_overflow n"
proof -
  have "(2 :: int) ^ 970 * 2 ^ 54 = 2 ^ 1024" by (simp flip: power_add)
  then have "(1000 :: int) < 2 ^ 1024 - 2 ^ 970"
    using power_strict_increasing [of 10 970 "2 :: int"] by simp
  then show "\<bar>n\<bar> \<le> 1000 \<Longrightarrow> \<not> float_overflow n"
    by (simp add: float_overflow_def)
qed

lemma float_overflow_huge: "float_overflow (10 ^ 400)"
proof -
  have "(2 :: int) ^ 1024 \<le> 2 ^ 1200" by (rule power_increasing) simp_all
  also have "\<dots> = (2 ^ 3) ^ 400" by (simp flip: power_mult)
  also have "\<dots> \<le> 10 ^ 400" by (rule power_mono) simp_all
  finally show ?thesis by (simp add: float_overflow_def)
qed

lemma py_float_falsy: "\<not> truthy v \<Longrightarrow> py_float sf v = Inr x \<Longrightarrow> x = 0"
  by (cases v) (auto split: if_splits)

lemma aqi_val_of_float:
  "py_float sf v = Inr x \<Longrightarrow> (if truthy v then py_float sf v else Inr 0) = Inr x"
  using py_float_falsy [of v sf x] by simp

lemma find_level_AQI_LEVELS:
  "find_level AQI_LEVELS x =
     (if 0 \<le> x \<and> x \<le> 50 then Some (label_good, ''#2ecc71'')
      else if 51 \<le> x \<and> x \<le> 100 then Some (label_moderate, ''#ffd700'')
      else if 101 \<le> x \<and> x \<le> 500 then Some (label_unhealthy, ''#ff4444'')
      else None)"
  by (simp add: AQI_LEVELS_def)

lemma get_aqi_level_numeric:
  assumes "py_float sf v = Inr x"
  shows "get_aqi_level sf v =
     Inr (if 0 \<le> x \<and> x \<le> 50 then (label_good, ''#2ecc71'')
          else if 51 \<le> x \<and> x \<le> 100 then (label_moderate, ''#ffd700'')
          else if 101 \<le> x \<and> x \<le> 500 then (label_unhealthy, ''#ff4444'')
          else (label_hazardous, ''#4b0082''))"
  unfolding get_aqi_level_def aqi_val_of_float [OF assms] find_level_AQI_LEVELS
  by simp

text \<open>The classifier raises for one kind of value only: an int beyond the doubles.\<close>

lemma get_aqi_level_raises:
  "get_aqi_level sf v = Inl e \<longleftrightarrow> e = OverflowError \<and> (\<exists>n. v = JInt n \<and> float_overflow n)"
proof (cases "if truthy v then py_float sf v else Inr 0")
  case (Inl e')
  then have t: "truthy v" and f: "py_float sf v = Inl e'" by (simp_all split: if_splits)
  from py_float_error [OF f] f Inl show ?thesis
    by (auto simp: get_aqi_level_def split: if_splits)
next
  case (Inr x)
  then have "\<not> (\<exists>n. v = JInt n \<and> float_overflow n)"
    by (auto simp: float_overflow_def split: if_splits)
  with Inr show ?thesis by (simp add: get_aqi_level_def split: option.splits)
qed

lemma get_aqi_level_huge: "get_aqi_level sf (JInt (10 ^ 400)) = Inl OverflowError"
  by (rule iffD2 [OF get_aqi_level_raises]) (use float_overflow_huge in blast)

text \<open>
  Claim C1, as the code has it. \<^verbatim>\<open>None\<close> and the empty string are falsy, so they are
  read as 0 and get the tier of 0, the first band. The tier (\<open>label_unknown\<close>,
  \<^verbatim>\<open>#95a5a6\<close>) is returned exactly for a truthy value that \<^verbatim>\<open>float\<close> refuses with a
  ValueError or a TypeError (a string that spells no number, a list, a dict); the number
  -5 is not such a value.
\<close>

theorem get_aqi_level_unknown_iff:
  "get_aqi_level sf JNull = Inr (label_good, ''#2ecc71'')
   \<and> get_aqi_level sf (JStr []) = Inr (label_good, ''#2ecc71'')
   \<and> get_aqi_level sf (JInt (- 5)) \<noteq> Inr (label_unknown, ''#95a5a6'')
   \<and> (get_aqi_level sf v = Inr (label_unknown, ''#95a5a6'')
        \<longleftrightarrow> truthy v \<and> (py_float sf v = Inl ValueError \<or> py_float sf v = Inl TypeError))"
proof -
  have a: "get_aqi_level sf JNull = Inr (label_good, ''#2ecc71'')"
    by (simp add: get_aqi_level_def find_level_AQI_LEVELS float_overflow_small)
  have b: "get_aqi_level sf (JStr []) = Inr (label_good, ''#2ecc71'')"
    by (simp add: get_aqi_level_def find_level_AQI_LEVELS float_overflow_small)
  have c: "get_aqi_level sf (JInt (- 5)) \<noteq> Inr (label_unknown, ''#95a5a6'')"
    using labels_distinct by (simp add: get_aqi_level_def find_level_AQI_LEVELS float_overflow_small)
  have d: "get_aqi_level sf v = Inr (label_unknown, ''#95a5a6'')
        \<longleftrightarrow> truthy v \<and> (py_float sf v = Inl ValueError \<or> py_float sf v = Inl TypeError)"
  proof (cases "if truthy v then py_float sf v else Inr 0")
    case (Inl e)
    then have t: "truthy v" and f: "py_float sf v = Inl e" by (simp_all split: if_splits)
    from py_float_error [OF f] Inl t f show ?thesis by (auto simp: get_aqi_level_def)
  next
    case (Inr x)
    then have "get_aqi_level sf v \<noteq> Inr (label_unknown, ''#95a5a6'')"
      using labels_distinct
      by (simp add: get_aqi_level_def find_level_AQI_LEVELS float_overflow_small)
    moreover have
      "\<not> (truthy v \<and> (py_float sf v = Inl ValueError \<or> py_float sf v = Inl TypeError))"
      using Inr by (auto split: if_splits)
    ultimately show ?thesis by simp
  qed
  from a b c d show ?thesis by simp
qed

text \<open>
  Claim C1 as stated fails on each of its three inputs: \<^verbatim>\<open>None\<close> and the empty string
  get the first band's tier, -5 the catch-all tier, none the tier of \<open>label_unknown\<close>.
\<close>

theorem get_aqi_level_unknown_counterexample:
  "get_aqi_level decimal_reader JNull = Inr (label_good, ''#2ecc71'')
   \<and> get_aqi_level decimal_reader (JStr []) = Inr (label_good, ''#2ecc71'')
   \<and> get_aqi_level decimal_reader (JInt (- 5)) = Inr (label_hazardous, ''#4b0082'')
   \<and> label_good \<noteq> label_unknown \<and> label_hazardous \<noteq> label_unknown"
  using labels_distinct by (simp add: get_aqi_level_def find_level_AQI_LEVELS float_overflow_small)

text \<open>
  Claim C2, for whole numbers. A value that \<^verbatim>\<open>float\<close> reads as a whole number \<open>x \<ge> 0\<close>
  lies in one of the bands [0,50], [51,100], [101,500] or above 500, it gets the tier of
  its band, and the catch-all tier (\<open>label_hazardous\<close>, \<^verbatim>\<open>#4b0082\<close>) is returned exactly
  when \<open>x > 500\<close>.
\<close>

theorem get_aqi_level_whole_numbers:
  assumes "py_float sf v = Inr x" and "x \<in> \<int>" and "0 \<le> x"
  shows "(x \<le> 50 \<longrightarrow> get_aqi_level sf v = Inr (label_good, ''#2ecc71''))
       \<and> (51 \<le> x \<and> x \<le> 100 \<longrightarrow> get_aqi_level sf v = Inr (label_moderate, ''#ffd700''))
       \<and> (101 \<le> x \<and> x \<le> 500 \<longrightarrow> get_aqi_level sf v = Inr (label_unhealthy, ''#ff4444''))
       \<and> (x \<le> 50 \<or> 51 \<le> x \<and> x \<le> 100 \<or> 101 \<le> x \<and> x \<le> 500 \<or> 500 < x)
       \<and> (get_aqi_level sf v = Inr (label_hazardous, ''#4b0082'') \<longleftrightarrow> 500 < x)"
proof -
  from \<open>x \<in> \<int>\<close> obtain n :: int where n: "x = of_int n" by (auto elim: Ints_cases)
  have gaps: "x \<le> 50 \<or> 51 \<le> x \<and> x \<le> 100 \<or> 101 \<le> x \<and> x \<le> 500 \<or> 500 < x"
    unfolding n by simp linarith
  show ?thesis
    using gaps \<open>0 \<le> x\<close> labels_distinct
    unfolding get_aqi_level_numeric [OF assms(1)]
    by auto
qed

theorem get_aqi_level_whole_numbers_witness:
  "py_float decimal_reader (JStr ''42'') = Inr 42 \<and> (42 :: real) \<in> \<int> \<and> (0 :: real) \<le> 42
   \<and> get_aqi_level decimal_reader (JStr ''42'') = Inr (label_good, ''#2ecc71'')
   \<and> get_aqi_level decimal_reader (JStr ''42'') \<noteq> Inr (label_hazardous, ''#4b0082'')"
proof -
  have r: "py_float decimal_reader (JStr ''42'') = Inr 42"
    by (simp add: decimal_reader_def unsigned_decimal_def digit_of_def)
  have i: "(42 :: real) \<in> \<int>" by simp
  show ?thesis
    using get_aqi_level_whole_numbers [OF r i] r by simp
qed

text \<open>
  Claim C2 as stated fails between the bands: 50.5 lies in [0,500], in none of the three
  bands, and gets the catch-all tier.
\<close>

theorem get_aqi_level_gap_counterexample:
  "(0 :: real) \<le> 50.5 \<and> (50.5 :: real) \<le> 500
   \<and> get_aqi_level decimal_reader (JFloat 50.5) = Inr (label_hazardous, ''#4b0082'')
   \<and> label_hazardous \<noteq> label_good \<and> label_hazardous \<noteq> label_moderate
   \<and> label_hazardous \<noteq> label_unhealthy"
  using labels_distinct by (auto simp: get_aqi_level_def find_level_AQI_LEVELS float_overflow_small)

text \<open>
  Claim C4: at the band boundaries, 50 is \<open>label_good\<close>, 51 and 100 are
  \<open>label_moderate\<close>, 101 and 500 are \<open>label_unhealthy\<close>, 501 is \<open>label_hazardous\<close>.
\<close>

theorem get_aqi_level_boundaries:
  "get_aqi_level sf (JInt 50) = Inr (label_good, ''#2ecc71'')
   \<and> get_aqi_level sf (JInt 51) = Inr (label_moderate, ''#ffd700'')
   \<and> get_aqi_level sf (JInt 100) = Inr (label_moderate, ''#ffd700'')
   \<and> get_aqi_level sf (JInt 101) = Inr (label_unhealthy, ''#ff4444'')
   \<and> get_aqi_level sf (JInt 500) = Inr (label_unhealthy, ''#ff4444'')
   \<and> get_aqi_level sf (JInt 501) = Inr (label_hazardous, ''#4b0082'')"
  by (simp add: get_aqi_level_def find_level_AQI_LEVELS float_overflow_small)

section \<open>Properties of the distance\<close>

lemma radians_minus: "sign_symmetric pf \<Longrightarrow> radians pf (- x) = - radians pf x"
  by (simp add: radians_def sign_symmetric_def)

lemma sin_half_radians_swap:
  assumes "sign_symmetric pf"
  shows "m_sq pf (m_sin pf (fl pf (radians pf (fl pf (p - q)) / 2)))
       = m_sq pf (m_sin pf (fl pf (radians pf (fl pf (q - p)) / 2)))"
proof -
  from assms have f: "\<And>x. fl pf (- x) = - fl pf x" and s: "\<And>x. m_sin pf (- x) = - m_sin pf x"
    and q: "\<And>x. m_sq pf (- x) = m_sq pf x"
    by (simp_all add: sign_symmetric_def)
  have "fl pf (p - q) = - fl pf (q - p)"
    using f [of "q - p"] by simp
  then have "radians pf (fl pf (p - q)) = - radians pf (fl pf (q - p))"
    by (simp add: radians_minus [OF assms])
  then have "fl pf (radians pf (fl pf (p - q)) / 2) = - fl pf (radians pf (fl pf (q - p)) / 2)"
    using f [of "radians pf (fl pf (q - p)) / 2"] by simp
  then show ?thesis by (simp add: s q)
qed

text \<open>
  Claim C8: \<^verbatim>\<open>calculate_distance\<close> is symmetric, on every platform that rounds to the
  nearest double and whose sine and square treat a number and its negative alike. The
  two calls return the same distance or raise the same error (\<^verbatim>\<open>math.asin\<close> raises when
  rounding carries the term under the root past 1). It holds for all coordinates, those
  within the valid ranges among them.
\<close>

theorem calculate_distance_symmetric:
  assumes "sign_symmetric pf"
  shows "calculate_distance pf lat1 lon1 lat2 lon2 = calculate_distance pf lat2 lon2 lat1 lon1"
  unfolding calculate_distance_def Let_def
    sin_half_radians_swap [OF assms, of lat1 lat2] sin_half_radians_swap [OF assms, of lon1 lon2]
  by (simp add: mult.commute)

lemma sign_symmetric_exact: "sign_symmetric exact_platform"
  by (simp add: sign_symmetric_def exact_platform_def)

theorem calculate_distance_symmetric_witness:
  "sign_symmetric exact_platform
   \<and> calculate_distance exact_platform 25.0330 121.5654 22.6273 120.3014
       = calculate_distance exact_platform 22.6273 120.3014 25.0330 121.5654"
  using calculate_distance_symmetric [OF sign_symmetric_exact, of "25.0330" "121.5654" "22.6273" "120.3014"]
    sign_symmetric_exact
  by (simp only: simp_thms)

text \<open>
  With exact arithmetic the term under the root lies in [0,1] whatever the coordinates,
  and nothing is raised. On doubles this is lost: rounding can carry the term past 1, and
  then \<^verbatim>\<open>math.asin\<close> raises.
\<close>

lemma haversine_range:
  fixes x y w :: real
  defines "a \<equiv> (sin ((y - x) / 2))\<^sup>2 + cos x * cos y * (sin w)\<^sup>2"
  shows "0 \<le> a \<and> a \<le> 1"
proof -
  define s where "s = (sin w)\<^sup>2"
  define C where "C = cos (y - x)"
  define D where "D = cos (x + y)"
  have s: "0 \<le> s" "s \<le> 1" by (simp_all add: s_def abs_square_le_1)
  have C: "- 1 \<le> C" "C \<le> 1" by (simp_all add: C_def)
  have D: "- 1 \<le> D" "D \<le> 1" by (simp_all add: D_def)
  have "2 * ((y - x) / 2) = y - x" by simp
  then have "cos (y - x) = 1 - 2 * (sin ((y - x) / 2))\<^sup>2"
    using cos_double_sin [of "(y - x) / 2"] by (simp only:)
  then have h1: "(sin ((y - x) / 2))\<^sup>2 = (1 - C) / 2"
    by (simp add: C_def)
  have h2: "cos x * cos y = (C + D) / 2"
    by (simp add: C_def D_def cos_add cos_diff)
  have a: "a = (1 - (1 - s) * C + s * D) / 2"
    unfolding a_def h1 h2 s_def [symmetric] by (simp add: field_simps)
  have p1: "(1 - s) * C \<le> 1 - s" "- (1 - s) \<le> (1 - s) * C"
    using s C by (simp_all add: mult_left_le) (smt (verit) mult_left_le mult_minus_right)
  have p2: "s * D \<le> s" "- s \<le> s * D"
    using s D by (simp_all add: mult_left_le) (smt (verit) mult_left_le mult_minus_right)
  show ?thesis unfolding a using p1 p2 by simp
qed

lemma calculate_distance_exact_total:
  "\<exists>d. calculate_distance exact_platform lat1 lon1 lat2 lon2 = Inr d"
proof -
  define r where "r = (\<lambda>x :: real. x * (pi / 180))"
  define a where "a = (sin (r (lat2 - lat1) / 2))\<^sup>2
    + cos (r lat1) * cos (r lat2) * (sin (r (lon2 - lon1) / 2))\<^sup>2"
  have "r (lat2 - lat1) / 2 = (r lat2 - r lat1) / 2"
    by (simp add: r_def field_simps)
  then have "0 \<le> a \<and> a \<le> 1"
    unfolding a_def
    using haversine_range [of "r lat2" "r lat1" "r (lon2 - lon1) / 2"]
    by simp
  then have "\<not> a < 0" "\<not> (sqrt a < - 1 \<or> 1 < sqrt a)"
    by (simp_all add: not_less) (smt (verit) real_sqrt_ge_zero)
  moreover have "radians exact_platform = r"
    by (simp add: radians_def exact_platform_def r_def fun_eq_iff)
  ultimately show ?thesis
    unfolding calculate_distance_def Let_def
    by (simp add: math_sqrt_def math_asin_def exact_platform_def a_def)
qed

lemma calculate_distance_same_point:
  "calculate_distance exact_platform lat lon lat lon = Inr 0"
  by (simp add: calculate_distance_def radians_def math_sqrt_def math_asin_def py_round_def
      round_half_even_def exact_platform_def)

section \<open>Properties of the fetch\<close>

text \<open>The four failures the method handles: each is reported and gives \<^verbatim>\<open>None\<close>.\<close>

lemma fetch_transport_failure:
  "fetch_aqi_data RequestFailed = ([MsgFetching, MsgRequestFailed], Inr None)"
  by (simp add: fetch_aqi_data_def)

lemma fetch_error_status:
  "400 \<le> status \<Longrightarrow> status < 600 \<Longrightarrow>
   fetch_aqi_data (Response status body) = ([MsgFetching, MsgRequestFailed], Inr None)"
  by (simp add: fetch_aqi_data_def raise_for_status_def)

lemma fetch_undecodable_body:
  "fetch_aqi_data (Response status None) = ([MsgFetching, MsgRequestFailed], Inr None)"
  by (simp add: fetch_aqi_data_def)

lemma fetch_envelope_failure:
  "\<not> raise_for_status status \<Longrightarrow> \<not> truthy (dict_get d ''success'') \<Longrightarrow>
   fetch_aqi_data (Response status (Some (JObject d)))
     = ([MsgFetching, MsgApiError (dict_get_default d ''message'' (JStr default_message))],
        Inr None)"
  by (simp add: fetch_aqi_data_def)

lemma report_count_Some:
  "snd (report_count v) = Inr (Some records) \<Longrightarrow> records = v"
  by (auto simp: report_count_def split: sum.splits)

text \<open>Records come only from a bare list or from an envelope with a true success flag.\<close>

lemma fetch_records_only:
  assumes "snd (fetch_aqi_data h) = Inr (Some records)"
  shows "\<exists>status. \<not> raise_for_status status \<and>
           ((\<exists>xs. records = JList xs \<and> h = Response status (Some records))
            \<or> (\<exists>d. h = Response status (Some (JObject d)) \<and> truthy (dict_get d ''success'')
                   \<and> records = dict_get_default d ''records'' (JList [])))"
proof (cases h)
  case RequestFailed
  with assms show ?thesis by (simp add: fetch_aqi_data_def)
next
  case (Response status body)
  show ?thesis
  proof (cases body)
    case None
    with assms Response show ?thesis by (simp add: fetch_aqi_data_def split: if_splits)
  next
    case (Some data)
    with assms Response show ?thesis
      by (cases data) (auto simp: fetch_aqi_data_def split: if_splits dest: report_count_Some)
  qed
qed

lemma report_count_raises:
  "snd (report_count v) = Inl e \<longleftrightarrow> py_len v = Inl TypeError \<and> e = TypeError"
  by (cases v) (auto simp: report_count_def)

text \<open>
  The method raises in one case only: a true success flag with records that have no
  length.
\<close>

lemma fetch_raises_iff:
  "(\<exists>e. snd (fetch_aqi_data h) = Inl e) \<longleftrightarrow>
     (\<exists>status d. h = Response status (Some (JObject d)) \<and> \<not> raise_for_status status
        \<and> truthy (dict_get d ''success'')
        \<and> py_len (dict_get_default d ''records'' (JList [])) = Inl TypeError)"
proof (cases h)
  case RequestFailed
  then show ?thesis by (simp add: fetch_aqi_data_def)
next
  case (Response status body)
  show ?thesis
  proof (cases body)
    case None
    with Response show ?thesis by (simp add: fetch_aqi_data_def)
  next
    case (Some data)
    with Response show ?thesis
      by (cases data) (auto simp: fetch_aqi_data_def report_count_raises)
  qed
qed

text \<open>
  Claim C5 fails on the code: for the response body
  \<^verbatim>\<open>{"success": true, "records": null}\<close> the method takes \<^verbatim>\<open>None\<close> for the records and
  calls \<^verbatim>\<open>len\<close> on it; the TypeError goes to the caller.
\<close>

theorem fetch_aqi_data_null_records:
  "fetch_aqi_data (success_envelope JNull) = ([MsgFetching], Inl TypeError)"
  by (simp add: fetch_aqi_data_def success_envelope_def raise_for_status_def dict_get_def
      dict_get_default_def report_count_def)

section \<open>Properties of the run\<close>

lemma fetch_empty_envelope:
  "snd (fetch_aqi_data (success_envelope (JList []))) = Inr (Some (JList []))"
  by (simp add: fetch_aqi_data_def success_envelope_def raise_for_status_def dict_get_def
      dict_get_default_def report_count_def)

text \<open>
  Claim C10: when the fetch returns the empty list, \<^verbatim>\<open>main\<close> ends as it does when the
  fetch returns \<^verbatim>\<open>None\<close>: the run is over before a renderer is called, with neither the
  map nor the report.
\<close>

theorem main_empty_records:
  assumes "k \<noteq> []"
    and "snd (fetch_aqi_data h) = Inr (Some (JList []))"
    and "snd (fetch_aqi_data h') = Inr None"
  shows "main pf sf (Some k) h = NoData
       \<and> main pf sf (Some k) h = main pf sf (Some k) h'
       \<and> map_artifact (main pf sf (Some k) h) = None
       \<and> report_artifact (main pf sf (Some k) h) = None"
  using assms by (simp add: main_def)

theorem main_empty_records_witness:
  "''key'' \<noteq> []
   \<and> snd (fetch_aqi_data (success_envelope (JList []))) = Inr (Some (JList []))
   \<and> snd (fetch_aqi_data RequestFailed) = Inr None
   \<and> main exact_platform decimal_reader (Some ''key'') (success_envelope (JList [])) = NoData
   \<and> main exact_platform decimal_reader (Some ''key'') RequestFailed = NoData"
proof -
  note a = fetch_empty_envelope
  have b: "snd (fetch_aqi_data RequestFailed) = Inr None"
    by (simp add: fetch_transport_failure)
  have c: "''key'' \<noteq> []" by simp
  from main_empty_records [OF c a b, of exact_platform decimal_reader]
  have d: "main exact_platform decimal_reader (Some ''key'') (success_envelope (JList [])) = NoData"
    and e: "main exact_platform decimal_reader (Some ''key'') (success_envelope (JList []))
      = main exact_platform decimal_reader (Some ''key'') RequestFailed"
    by blast+
  from e d have f: "main exact_platform decimal_reader (Some ''key'') RequestFailed = NoData" by simp
  from a b c d f show ?thesis by (simp only: simp_thms)
qed

section \<open>Properties of the map\<close>

lemma valid_records_append:
  "valid_records (xs @ ys) =
     (case valid_records xs of
        Inl e \<Rightarrow> Inl e
      | Inr vx \<Rightarrow> (case valid_records ys of Inl e \<Rightarrow> Inl e | Inr vy \<Rightarrow> Inr (vx @ vy)))"
  by (induction xs rule: valid_records.induct) (auto split: sum.splits)

lemma valid_records_drop:
  "\<not> is_valid_record r \<Longrightarrow> valid_records (rs1 @ JObject r # rs2) = valid_records (rs1 @ rs2)"
  by (simp add: valid_records_append split: sum.splits)

lemma add_markers_append:
  "add_markers sf (xs @ ys) m =
     (case add_markers sf xs m of Inl e \<Rightarrow> Inl e | Inr m' \<Rightarrow> add_markers sf ys m')"
  by (induction xs arbitrary: m) (auto split: sum.splits)

lemma add_markers_skip:
  assumes "make_marker sf r = Inl e" and "e = ValueError \<or> e = TypeError"
  shows "add_markers sf (xs @ r # ys) m = add_markers sf (xs @ ys) m"
  using assms by (auto simp: add_markers_append split: sum.splits)

text \<open>
  The loop body on a record whose longitude \<^verbatim>\<open>float\<close> refuses: the latitude is converted
  first, and only an OverflowError of that conversion is not one of the two errors the
  loop catches.
\<close>

lemma make_marker_unparsable:
  assumes "map_of r ''latitude'' = Some lat_v"
    and "map_of r ''longitude'' = Some lon_v"
    and "py_float sf lon_v = Inl e2" and "e2 = ValueError \<or> e2 = TypeError"
  shows "\<exists>e. make_marker sf r = Inl e
           \<and> (e = ValueError \<or> e = TypeError
                \<or> (e = OverflowError \<and> (\<exists>n. lat_v = JInt n \<and> float_overflow n)))"
  using assms py_float_error [of sf lat_v]
  by (auto simp: make_marker_def dict_index_def split: sum.splits)

lemma is_valid_record_present:
  assumes "is_valid_record r"
  shows "\<exists>lat_v lon_v name. map_of r ''latitude'' = Some lat_v \<and> truthy lat_v
      \<and> map_of r ''longitude'' = Some lon_v \<and> truthy lon_v
      \<and> map_of r ''sitename'' = Some name \<and> truthy name"
  using assms by (auto simp: is_valid_record_def dict_get_def split: option.splits)

text \<open>The example records in the filter and in the loop body.\<close>

lemma is_valid_record_examples:
  "is_valid_record taipei_station"
  "is_valid_record station_bad_longitude"
  "\<not> is_valid_record station_without_latitude"
  "\<not> is_valid_record station_zero_latitude"
  by (simp_all add: is_valid_record_def dict_get_def taipei_station_def
      station_bad_longitude_def station_without_latitude_def station_zero_latitude_def)

lemma make_marker_taipei: "make_marker decimal_reader taipei_station = Inr taipei_marker"
  by (simp add: make_marker_def taipei_station_def taipei_marker_def dict_index_def
      dict_get_default_def decimal_reader_def unsigned_decimal_def digit_of_def
      get_aqi_level_def find_level_AQI_LEVELS)

lemma create_map_taipei:
  "create_map decimal_reader [JObject taipei_station]
     = Inr (Some \<lparr>center = (23.5, 121), zoom_start = 7, markers = [taipei_marker]\<rparr>)"
  by (simp add: create_map_def is_valid_record_examples make_marker_taipei)

lemma add_markers_raise:
  assumes "make_marker sf r = Inl e" and "e \<noteq> ValueError" and "e \<noteq> TypeError"
  shows "\<exists>e'. add_markers sf (xs @ r # ys) m = Inl e'"
  using assms by (auto simp: add_markers_append split: sum.splits)

text \<open>
  What holds of every record without a latitude, without a station name, or with a
  longitude that \<^verbatim>\<open>float\<close> refuses: it has no marker in a map that \<^verbatim>\<open>create_map\<close>
  produces. The markers of such a map are those of the other records alone.
\<close>

lemma create_map_never_renders:
  assumes "map_of r ''latitude'' = None \<or> map_of r ''sitename'' = None
           \<or> (\<exists>v e. map_of r ''longitude'' = Some v \<and> py_float sf v = Inl e)"
    and "create_map sf (rs1 @ JObject r # rs2) = Inr (Some m)"
  shows "markers m = markers_of (create_map sf (rs1 @ rs2))"
proof (cases "is_valid_record r")
  case False
  then have "create_map sf (rs1 @ JObject r # rs2) = create_map sf (rs1 @ rs2)"
    by (simp add: create_map_def valid_records_drop)
  with assms(2) show ?thesis by simp
next
  case True
  from is_valid_record_present [OF True] obtain lat_v lon_v name where
    p: "map_of r ''latitude'' = Some lat_v" "map_of r ''longitude'' = Some lon_v"
       "map_of r ''sitename'' = Some name"
    by blast
  with assms(1) obtain e2 where "py_float sf lon_v = Inl e2" by auto
  with p have "\<exists>e. make_marker sf r = Inl e"
    by (auto simp: make_marker_def dict_index_def split: sum.splits)
  then obtain e where e: "make_marker sf r = Inl e" by blast
  from assms(2) obtain v1 v2 where v: "valid_records rs1 = Inr v1" "valid_records rs2 = Inr v2"
    by (auto simp: create_map_def valid_records_append split: sum.splits)
  with assms(2) True have a: "add_markers sf (v1 @ r # v2) [] = Inr (markers m)"
    by (auto simp: create_map_def valid_records_append split: sum.splits if_splits)
  with add_markers_raise [OF e, of v1 v2 "[]"] have "e = ValueError \<or> e = TypeError"
    by auto
  with e have skip: "add_markers sf (v1 @ r # v2) [] = add_markers sf (v1 @ v2) []"
    by (rule add_markers_skip)
  show ?thesis
  proof (cases "v1 @ v2 = []")
    case True
    with v a skip show ?thesis by (simp add: create_map_def valid_records_append)
  next
    case False
    with v a skip show ?thesis by (auto simp: create_map_def valid_records_append)
  qed
qed

text \<open>
  The record is skipped and the others are rendered as without it when, beyond that,
  its latitude is no int beyond the doubles.
\<close>

lemma create_map_skips_unrenderable:
  assumes "map_of r ''latitude'' = None \<or> map_of r ''sitename'' = None
           \<or> (\<exists>v e. map_of r ''longitude'' = Some v \<and> py_float sf v = Inl e
                  \<and> (e = ValueError \<or> e = TypeError))"
    and "\<forall>n. map_of r ''latitude'' = Some (JInt n) \<longrightarrow> \<not> float_overflow n"
  shows "markers_of (create_map sf (rs1 @ JObject r # rs2))
           = markers_of (create_map sf (rs1 @ rs2))
       \<and> (\<forall>e. create_map sf (rs1 @ JObject r # rs2) = Inl e
               \<longleftrightarrow> create_map sf (rs1 @ rs2) = Inl e)"
proof (cases "is_valid_record r")
  case False
  then have "create_map sf (rs1 @ JObject r # rs2) = create_map sf (rs1 @ rs2)"
    by (simp add: create_map_def valid_records_drop)
  then show ?thesis by simp
next
  case True
  from is_valid_record_present [OF True] obtain lat_v lon_v name where
    p: "map_of r ''latitude'' = Some lat_v" "map_of r ''longitude'' = Some lon_v"
       "map_of r ''sitename'' = Some name"
    by blast
  with assms(1) obtain e2 where "py_float sf lon_v = Inl e2" "e2 = ValueError \<or> e2 = TypeError"
    by auto
  with p assms(2) make_marker_unparsable [of r lat_v lon_v sf e2]
  obtain e where e: "make_marker sf r = Inl e" "e = ValueError \<or> e = TypeError" by auto
  show ?thesis
  proof (cases "valid_records rs1")
    case (Inl a)
    then show ?thesis by (simp add: create_map_def valid_records_append)
  next
    case v1: (Inr v1)
    show ?thesis
    proof (cases "valid_records rs2")
      case (Inl a)
      with v1 show ?thesis
        by (simp add: create_map_def valid_records_append split: sum.splits)
    next
      case v2: (Inr v2)
      have skip: "add_markers sf (v1 @ r # v2) [] = add_markers sf (v1 @ v2) []"
        using e by (rule add_markers_skip)
      have one: "add_markers sf [r] [] = Inr []" using e by auto
      show ?thesis
      proof (cases "v1 @ v2 = []")
        case True
        with v1 v2 \<open>is_valid_record r\<close> one show ?thesis
          by (simp add: create_map_def valid_records_append)
      next
        case False
        with v1 v2 \<open>is_valid_record r\<close> skip show ?thesis
          by (simp add: create_map_def valid_records_append)
      qed
    qed
  qed
qed

lemma create_map_skips_bad_longitude:
  "markers_of (create_map decimal_reader [JObject taipei_station, JObject station_bad_longitude])
     = [taipei_marker]"
proof -
  have "map_of station_bad_longitude ''longitude'' = Some (JStr ''abc'')"
    "map_of station_bad_longitude ''latitude'' = Some (JStr ''22.6273'')"
    by (simp_all add: station_bad_longitude_def)
  moreover have "py_float decimal_reader (JStr ''abc'') = Inl ValueError"
    by (simp add: decimal_reader_def unsigned_decimal_def digit_of_def)
  ultimately show ?thesis
    using create_map_skips_unrenderable
      [of station_bad_longitude decimal_reader "[JObject taipei_station]" "[]"]
    by (simp add: create_map_taipei)
qed

text \<open>
  Claim C7 fails on the code. The record \<open>station_huge_latitude\<close> has a longitude that
  \<^verbatim>\<open>float\<close> refuses, so by the claim it is skipped and the station before it rendered.
  Its latitude is the int \<open>10 ^ 400\<close>: \<^verbatim>\<open>float(record['latitude'])\<close> raises OverflowError,
  which the handler of the loop (ValueError, TypeError) does not take, and \<^verbatim>\<open>create_map\<close>
  ends with that error and no map, where without the record the station is rendered.
\<close>

theorem create_map_huge_latitude:
  "map_of station_huge_latitude ''longitude'' = Some (JStr ''abc'')
   \<and> py_float decimal_reader (JStr ''abc'') = Inl ValueError
   \<and> create_map decimal_reader [JObject taipei_station, JObject station_huge_latitude]
       = Inl OverflowError
   \<and> markers_of (create_map decimal_reader [JObject taipei_station]) = [taipei_marker]"
proof -
  have a: "map_of station_huge_latitude ''longitude'' = Some (JStr ''abc'')"
    by (simp add: station_huge_latitude_def)
  have b: "py_float decimal_reader (JStr ''abc'') = Inl ValueError"
    by (simp add: decimal_reader_def unsigned_decimal_def digit_of_def)
  have v: "is_valid_record station_huge_latitude"
    by (simp add: is_valid_record_def dict_get_def station_huge_latitude_def)
  have "py_float decimal_reader (JInt (10 ^ 400)) = Inl OverflowError"
    using float_overflow_huge by (simp del: power_numeral)
  then have m: "make_marker decimal_reader station_huge_latitude = Inl OverflowError"
    by (simp add: make_marker_def dict_index_def station_huge_latitude_def
        del: py_float.simps power_numeral)
  have c: "create_map decimal_reader [JObject taipei_station, JObject station_huge_latitude]
       = Inl OverflowError"
    by (simp add: create_map_def is_valid_record_examples v make_marker_taipei m)
  have d: "markers_of (create_map decimal_reader [JObject taipei_station]) = [taipei_marker]"
    by (simp add: create_map_taipei)
  from a b c d show ?thesis by (simp only: simp_thms)
qed

text \<open>
  Claim C9: a record whose latitude or longitude is falsy (the number 0, the empty
  string) does not pass the filter, which tests the fields for truth:
  \<^verbatim>\<open>create_map\<close> returns what it returns without the record, though \<^verbatim>\<open>float\<close> reads
  the number 0 as the coordinate 0.
\<close>

theorem create_map_skips_falsy_coordinate:
  assumes "map_of r ''latitude'' = Some v \<or> map_of r ''longitude'' = Some v"
    and "\<not> truthy v"
  shows "create_map sf (rs1 @ JObject r # rs2) = create_map sf (rs1 @ rs2)
       \<and> (v = JInt 0 \<or> v = JFloat 0 \<longrightarrow> py_float sf v = Inr 0)"
proof
  from assms have "\<not> is_valid_record r"
    by (auto simp: is_valid_record_def dict_get_def)
  then show "create_map sf (rs1 @ JObject r # rs2) = create_map sf (rs1 @ rs2)"
    by (simp add: create_map_def valid_records_drop)
  show "v = JInt 0 \<or> v = JFloat 0 \<longrightarrow> py_float sf v = Inr 0"
    by (auto simp: float_overflow_small)
qed

theorem create_map_skips_falsy_coordinate_witness:
  "map_of station_zero_latitude ''latitude'' = Some (JInt 0)
   \<and> \<not> truthy (JInt 0)
   \<and> py_float decimal_reader (JInt 0) = Inr 0
   \<and> create_map decimal_reader ([JObject taipei_station] @ JObject station_zero_latitude # [])
       = Inr (Some \<lparr>center = (23.5, 121), zoom_start = 7, markers = [taipei_marker]\<rparr>)"
proof -
  have a: "map_of station_zero_latitude ''latitude'' = Some (JInt 0)"
    by (simp add: station_zero_latitude_def)
  have b: "\<not> truthy (JInt 0)" by simp
  have c: "py_float decimal_reader (JInt 0) = Inr 0" by (simp add: float_overflow_small)
  from a have h: "map_of station_zero_latitude ''latitude'' = Some (JInt 0)
      \<or> map_of station_zero_latitude ''longitude'' = Some (JInt 0)"
    by (rule disjI1)
  have "create_map decimal_reader ([JObject taipei_station] @ JObject station_zero_latitude # [])
       = Inr (Some \<lparr>center = (23.5, 121), zoom_start = 7, markers = [taipei_marker]\<rparr>)"
    using create_map_skips_falsy_coordinate [OF h b, of decimal_reader "[JObject taipei_station]" "[]"]
    by (simp add: create_map_taipei)
  with a b c show ?thesis by (simp only: simp_thms)
qed

section \<open>Properties of the report\<close>

lemma df_apply_Inr:
  "df_apply f rows = Inr ys \<longleftrightarrow> list_all2 (\<lambda>r y. f r = Inr y) rows ys"
proof (induction rows arbitrary: ys)
  case Nil
  then show ?case by auto
next
  case (Cons r rows)
  show ?case by (cases ys) (auto simp: Cons.IH [symmetric] split: sum.splits)
qed

lemma df_apply_Inl:
  "(\<exists>e. df_apply f rows = Inl e) \<longleftrightarrow> (\<exists>r \<in> set rows. \<exists>e. f r = Inl e)"
  by (induction rows) (auto split: sum.splits)

lemma frame_cell_present:
  "row \<in> set df \<Longrightarrow> map_of row c = Some v \<Longrightarrow> frame_cell df row c = Inr (Some v)"
  by (auto simp: frame_cell_def has_column_def list_ex_iff)

lemma notna_False: "notna pf c = Inr False \<Longrightarrow> c = None \<or> c = Some JNull \<or> (\<exists>xs. c = Some (JList xs))"
  by (cases "(pf, c)" rule: notna.cases) auto

text \<open>
  What the row function returns when it returns: no distance where a coordinate is
  missing or \<^verbatim>\<open>None\<close> (or a list that \<^verbatim>\<open>pd.notna\<close> finds empty of values), and else the
  distance of the two converted coordinates to (25.0478, 121.5170).
\<close>

lemma row_distance_Inr:
  assumes "row_distance pf sf df row = Inr d"
  shows "(d = None
            \<and> (notna pf (map_of row ''latitude'') = Inr False
                 \<or> notna pf (map_of row ''longitude'') = Inr False))
         \<or> (\<exists>lat_v lon_v lat lon x.
              map_of row ''latitude'' = Some lat_v \<and> map_of row ''longitude'' = Some lon_v
              \<and> py_float sf lat_v = Inr lat \<and> py_float sf lon_v = Inr lon
              \<and> calculate_distance pf lat lon 25.0478 121.5170 = Inr x \<and> d = Some x)"
  using assms
  by (auto simp: row_distance_def frame_cell_def
      split: sum.splits if_splits option.splits bool.splits)

text \<open>
  The row function catches nothing: a coordinate that is there and that \<^verbatim>\<open>float\<close>
  refuses makes it raise, next to a second coordinate that is there as well.
\<close>

lemma row_distance_unparsable:
  assumes "row \<in> set df"
    and "map_of row ''latitude'' = Some lat_v" and "notna pf (Some lat_v) = Inr True"
    and "map_of row ''longitude'' = Some lon_v" and "notna pf (Some lon_v) = Inr True"
    and "py_float sf lat_v = Inl e \<or> py_float sf lon_v = Inl e"
  shows "\<exists>e'. row_distance pf sf df row = Inl e'"
  using assms frame_cell_present [OF assms(1,2)] frame_cell_present [OF assms(1,4)]
  by (auto simp: row_distance_def split: sum.splits)

lemma length_DataFrame: "DataFrame records = Some df \<Longrightarrow> length df = length records"
  by (induction records arbitrary: df rule: DataFrame.induct) auto

lemma create_data_report_saved:
  assumes "saved (create_data_report pf sf records) = Some rows"
  shows "\<exists>df ds. DataFrame records = Some df \<and> df \<noteq> [] \<and> distance_column pf sf df = Inr ds
      \<and> rows = sort_values
           (map2 (\<lambda>row d.
                    \<lparr>cells = map (\<lambda>c. (c, map_of row c)) (filter (has_column df) columns),
                     distance = d\<rparr>) df ds)"
  using assms
  by (auto simp: create_data_report_def Let_def split: option.splits if_splits sum.splits)

text \<open>Without a \<^verbatim>\<open>latitude\<close> column the row function raises KeyError on the first row.\<close>

lemma report_without_latitude_column:
  assumes "DataFrame records = Some df" and "\<not> has_column df ''latitude''"
  shows "create_data_report pf sf records = \<lparr>saved = None, failed = True\<rparr>"
proof (cases df)
  case Nil
  with assms show ?thesis by (simp add: create_data_report_def)
next
  case (Cons row rest)
  with assms have "row_distance pf sf df row = Inl KeyError"
    by (simp add: row_distance_def frame_cell_def)
  with Cons have "distance_column pf sf df = Inl KeyError"
    by (simp add: distance_column_def)
  with assms Cons show ?thesis by (simp add: create_data_report_def)
qed

text \<open>One row that raises loses the report: the handler of the method is the only one.\<close>

lemma report_unparsable_coordinate:
  assumes "DataFrame records = Some df" and "row \<in> set df"
    and "map_of row ''latitude'' = Some lat_v" and "notna pf (Some lat_v) = Inr True"
    and "map_of row ''longitude'' = Some lon_v" and "notna pf (Some lon_v) = Inr True"
    and "py_float sf lat_v = Inl e \<or> py_float sf lon_v = Inl e"
  shows "create_data_report pf sf records = \<lparr>saved = None, failed = True\<rparr>"
proof -
  from row_distance_unparsable [OF assms(2-7)]
  have "\<exists>e'. row_distance pf sf df row = Inl e'" .
  with assms(2) have "\<exists>e'. distance_column pf sf df = Inl e'"
    unfolding distance_column_def df_apply_Inl by blast
  with assms(1) show ?thesis by (auto simp: create_data_report_def)
qed

subsection \<open>The order of the rows\<close>

lemma sort_values_split:
  "\<exists>A B. sort_values xs = A @ B \<and> (\<forall>r \<in> set A. distance r \<noteq> None)
      \<and> (\<forall>r \<in> set B. distance r = None) \<and> sorted (map (\<lambda>r. the (distance r)) A)"
  unfolding sort_values_def
  by (intro exI conjI, rule refl) simp_all

lemma length_sort_values: "length (sort_values xs) = length xs"
proof -
  have "length (filter (\<lambda>r. distance r \<noteq> None) xs)
      + length (filter (\<lambda>r. \<not> distance r \<noteq> None) xs) = length xs"
    by (rule sum_length_filter_compl)
  then show ?thesis unfolding sort_values_def by simp
qed

lemma set_sort_values: "set (sort_values xs) = set xs"
  unfolding sort_values_def by auto

lemma sort_values_ordered:
  assumes "i < j" and "j < length (sort_values xs)"
  shows "(\<forall>a b. distance (sort_values xs ! i) = Some a \<and> distance (sort_values xs ! j) = Some b
            \<longrightarrow> a \<le> b)
       \<and> (distance (sort_values xs ! i) = None \<longrightarrow> distance (sort_values xs ! j) = None)"
proof -
  from sort_values_split [of xs] obtain A B where
    s: "sort_values xs = A @ B" and A: "\<forall>r \<in> set A. distance r \<noteq> None"
    and B: "\<forall>r \<in> set B. distance r = None" and srt: "sorted (map (\<lambda>r. the (distance r)) A)"
    by blast
  from assms s have j: "j < length A + length B" by simp
  consider "j < length A" | "i < length A" "length A \<le> j" | "length A \<le> i"
    by linarith
  then show ?thesis
  proof cases
    case 1
    with \<open>i < j\<close> have i: "i < length A" by simp
    from srt 1 i \<open>i < j\<close> have "the (distance (A ! i)) \<le> the (distance (A ! j))"
      using sorted_nth_mono [of "map (\<lambda>r. the (distance r)) A" i j] by simp
    moreover from A i have "distance (A ! i) \<noteq> None" by simp
    ultimately show ?thesis using 1 i by (auto simp: s nth_append)
  next
    case 2
    from 2 j have "B ! (j - length A) \<in> set B" by simp
    with B have "distance (B ! (j - length A)) = None" by blast
    with 2 show ?thesis by (simp add: s nth_append)
  next
    case 3
    with \<open>i < j\<close> j have "B ! (j - length A) \<in> set B" by simp
    with B have "distance (B ! (j - length A)) = None" by blast
    with 3 \<open>i < j\<close> show ?thesis by (simp add: s nth_append)
  qed
qed

subsection \<open>The example records in the report\<close>

lemma py_float_examples:
  "py_float decimal_reader (JStr ''25.0478'') = Inr 25.0478"
  "py_float decimal_reader (JStr ''121.5170'') = Inr 121.5170"
  "py_float decimal_reader (JStr ''22.6273'') = Inr 22.6273"
  "py_float decimal_reader (JStr ''abc'') = Inl ValueError"
  by (simp_all add: decimal_reader_def unsigned_decimal_def digit_of_def)

lemma row_distance_taipei:
  "has_column df ''latitude'' \<Longrightarrow> has_column df ''longitude'' \<Longrightarrow>
   row_distance exact_platform decimal_reader df taipei_station = Inr (Some 0)"
  by (simp add: row_distance_def frame_cell_def taipei_station_def py_float_examples
      calculate_distance_same_point del: py_float.simps)

lemma row_distance_without_latitude:
  "has_column df ''latitude'' \<Longrightarrow>
   row_distance pf sf df station_without_latitude = Inr None"
  by (simp add: row_distance_def frame_cell_def station_without_latitude_def)

lemma example_columns:
  "has_column [station_without_latitude, taipei_station] c
     \<longleftrightarrow> c \<in> {''sitename'', ''aqi'', ''latitude'', ''longitude''}"
  "has_column [taipei_station] c
     \<longleftrightarrow> c \<in> {''sitename'', ''aqi'', ''latitude'', ''longitude''}"
  by (auto simp: has_column_def taipei_station_def station_without_latitude_def
      split: if_splits)

lemma example_cells:
  "map_of taipei_station ''sitename'' = Some (JStr ''Taipei Station'')"
  "map_of taipei_station ''aqi'' = Some (JStr ''42'')"
  "map_of taipei_station ''latitude'' = Some (JStr ''25.0478'')"
  "map_of taipei_station ''longitude'' = Some (JStr ''121.5170'')"
  "map_of station_without_latitude ''sitename'' = Some (JStr ''B'')"
  "map_of station_without_latitude ''aqi'' = Some (JStr ''120'')"
  "map_of station_without_latitude ''latitude'' = None"
  "map_of station_without_latitude ''longitude'' = Some (JStr ''120.3014'')"
  by (simp_all add: taipei_station_def station_without_latitude_def)

lemma distance_column_example:
  "distance_column exact_platform decimal_reader [station_without_latitude, taipei_station]
     = Inr [None, Some 0]"
  by (simp add: distance_column_def row_distance_taipei row_distance_without_latitude
      example_columns)

lemma create_data_report_example:
  "create_data_report exact_platform decimal_reader
       [JObject station_without_latitude, JObject taipei_station]
     = \<lparr>saved = Some
          [\<lparr>cells = [(''sitename'', Some (JStr ''Taipei Station'')), (''aqi'', Some (JStr ''42'')),
                     (''latitude'', Some (JStr ''25.0478'')),
                     (''longitude'', Some (JStr ''121.5170''))],
            distance = Some 0\<rparr>,
           \<lparr>cells = [(''sitename'', Some (JStr ''B'')), (''aqi'', Some (JStr ''120'')),
                     (''latitude'', None), (''longitude'', Some (JStr ''120.3014''))],
            distance = None\<rparr>],
        failed = False\<rparr>"
  by (simp add: create_data_report_def distance_column_example example_columns columns_def
      sort_values_def example_cells)

lemma create_data_report_taipei:
  "create_data_report exact_platform decimal_reader [JObject taipei_station]
     = \<lparr>saved = Some
          [\<lparr>cells = [(''sitename'', Some (JStr ''Taipei Station'')), (''aqi'', Some (JStr ''42'')),
                     (''latitude'', Some (JStr ''25.0478'')),
                     (''longitude'', Some (JStr ''121.5170''))],
            distance = Some 0\<rparr>],
        failed = False\<rparr>"
  by (simp add: create_data_report_def distance_column_def row_distance_taipei example_columns
      columns_def sort_values_def example_cells)

subsection \<open>The distance column\<close>

text \<open>
  Claim C3 fails on the code. The record \<open>station_bad_longitude\<close> has both coordinates
  and its longitude is the string \<^verbatim>\<open>abc\<close>; by the claim its row has no distance and the
  station before it has its row. On every platform the call saves no report and ends in
  the handler of the method, where the station alone gives a report with its row.
\<close>

theorem create_data_report_bad_longitude:
  "map_of station_bad_longitude ''latitude'' = Some (JStr ''22.6273'')
   \<and> map_of station_bad_longitude ''longitude'' = Some (JStr ''abc'')
   \<and> py_float decimal_reader (JStr ''abc'') = Inl ValueError
   \<and> create_data_report pf decimal_reader
         [JObject taipei_station, JObject station_bad_longitude]
       = \<lparr>saved = None, failed = True\<rparr>
   \<and> saved (create_data_report exact_platform decimal_reader [JObject taipei_station])
       = Some
          [\<lparr>cells = [(''sitename'', Some (JStr ''Taipei Station'')), (''aqi'', Some (JStr ''42'')),
                     (''latitude'', Some (JStr ''25.0478'')),
                     (''longitude'', Some (JStr ''121.5170''))],
            distance = Some 0\<rparr>]"
proof -
  have a: "map_of station_bad_longitude ''latitude'' = Some (JStr ''22.6273'')"
    and b: "map_of station_bad_longitude ''longitude'' = Some (JStr ''abc'')"
    by (simp_all add: station_bad_longitude_def)
  note c = py_float_examples(4)
  have d: "DataFrame [JObject taipei_station, JObject station_bad_longitude]
      = Some [taipei_station, station_bad_longitude]"
    by simp
  have e: "station_bad_longitude \<in> set [taipei_station, station_bad_longitude]" by simp
  have n: "notna pf (Some (JStr ''22.6273'')) = Inr True" "notna pf (Some (JStr ''abc'')) = Inr True"
    by simp_all
  from c have f: "py_float decimal_reader (JStr ''22.6273'') = Inl ValueError
      \<or> py_float decimal_reader (JStr ''abc'') = Inl ValueError"
    by (rule disjI2)
  have g: "create_data_report pf decimal_reader
         [JObject taipei_station, JObject station_bad_longitude]
       = \<lparr>saved = None, failed = True\<rparr>"
    by (rule report_unparsable_coordinate [OF d e a n(1) b n(2) f])
  have h: "saved (create_data_report exact_platform decimal_reader [JObject taipei_station])
       = Some
          [\<lparr>cells = [(''sitename'', Some (JStr ''Taipei Station'')), (''aqi'', Some (JStr ''42'')),
                     (''latitude'', Some (JStr ''25.0478'')),
                     (''longitude'', Some (JStr ''121.5170''))],
            distance = Some 0\<rparr>]"
    by (simp add: create_data_report_taipei)
  from a b c g h show ?thesis by (simp only: simp_thms)
qed

text \<open>
  Claim C6: in the saved report the distances do not decrease from one row to a later
  one, and no row without a distance stands before a row with one. The report has one
  row for each record.
\<close>

theorem report_rows_sorted:
  assumes "saved (create_data_report pf sf records) = Some rows"
    and "i < j" and "j < length rows"
  shows "(\<forall>a b. distance (rows ! i) = Some a \<and> distance (rows ! j) = Some b \<longrightarrow> a \<le> b)
       \<and> (distance (rows ! i) = None \<longrightarrow> distance (rows ! j) = None)
       \<and> length rows = length records"
proof -
  from create_data_report_saved [OF assms(1)] obtain df ds where
    df: "DataFrame records = Some df" and ds: "distance_column pf sf df = Inr ds"
    and rows: "rows = sort_values
           (map2 (\<lambda>row d.
                    \<lparr>cells = map (\<lambda>c. (c, map_of row c)) (filter (has_column df) columns),
                     distance = d\<rparr>) df ds)"
    by blast
  from ds have "length ds = length df"
    by (auto simp: distance_column_def df_apply_Inr dest: list_all2_lengthD)
  then have "length rows = length records"
    using length_DataFrame [OF df] by (simp add: rows length_sort_values)
  moreover note sort_values_ordered [OF assms(2)]
  ultimately show ?thesis using assms(3) unfolding rows by blast
qed

theorem report_rows_sorted_witness:
  "saved (create_data_report exact_platform decimal_reader
            [JObject station_without_latitude, JObject taipei_station])
     = Some
          [\<lparr>cells = [(''sitename'', Some (JStr ''Taipei Station'')), (''aqi'', Some (JStr ''42'')),
                     (''latitude'', Some (JStr ''25.0478'')),
                     (''longitude'', Some (JStr ''121.5170''))],
            distance = Some 0\<rparr>,
           \<lparr>cells = [(''sitename'', Some (JStr ''B'')), (''aqi'', Some (JStr ''120'')),
                     (''latitude'', None), (''longitude'', Some (JStr ''120.3014''))],
            distance = None\<rparr>]
   \<and> (0 :: nat) < 1
   \<and> (1 :: nat) < length
          [\<lparr>cells = [(''sitename'', Some (JStr ''Taipei Station'')), (''aqi'', Some (JStr ''42'')),
                     (''latitude'', Some (JStr ''25.0478'')),
                     (''longitude'', Some (JStr ''121.5170''))],
            distance = Some (0 :: real)\<rparr>,
           \<lparr>cells = [(''sitename'', Some (JStr ''B'')), (''aqi'', Some (JStr ''120'')),
                     (''latitude'', None), (''longitude'', Some (JStr ''120.3014''))],
            distance = None\<rparr>]
   \<and> length [JObject station_without_latitude, JObject taipei_station] = 2"
proof -
  define rows where "rows =
          [\<lparr>cells = [(''sitename'', Some (JStr ''Taipei Station'')), (''aqi'', Some (JStr ''42'')),
                     (''latitude'', Some (JStr ''25.0478'')),
                     (''longitude'', Some (JStr ''121.5170''))],
            distance = Some (0 :: real)\<rparr>,
           \<lparr>cells = [(''sitename'', Some (JStr ''B'')), (''aqi'', Some (JStr ''120'')),
                     (''latitude'', None), (''longitude'', Some (JStr ''120.3014''))],
            distance = None\<rparr>]"
  have a: "saved (create_data_report exact_platform decimal_reader
            [JObject station_without_latitude, JObject taipei_station]) = Some rows"
    by (simp add: create_data_report_example rows_def)
  have b: "(0 :: nat) < 1" by simp
  have c: "1 < length rows" by (simp add: rows_def)
  from report_rows_sorted [OF a b c]
  have "length rows = length [JObject station_without_latitude, JObject taipei_station]"
    by blast
  then have d: "length [JObject station_without_latitude, JObject taipei_station] = 2"
    by (simp add: rows_def)
  from a b c d show ?thesis unfolding rows_def by (simp only: simp_thms)
qed

end
